theory Spec2Isabelle
  imports Complex_Main
begin

section \<open>The Fluxer gateway client (extensions/fluxer/src/runtime.ts)\<close>

text \<open>
  The class \<open>FluxerGateway\<close> is event driven: its methods run to completion one at a
  time, started by a call of the owner (\<open>connect\<close>, \<open>disconnect\<close>), by an event of a
  socket (open, message, error, close) or by a timer. Each method is a function from the
  state before to the state after. The state holds the fields of the object and, beside
  them, what the JavaScript runtime holds for it: the sockets it has created, the
  promises of its \<open>connect()\<close> calls, the pending timeouts and the trace of everything
  observable it has done so far.
\<close>

subsection \<open>JSON values\<close>

text \<open>
  What \<open>JSON.parse\<close> returns, and \<open>undefined\<close> for a property that is not there. A
  number is a finite one, \<open>JNum\<close> of its value, or one of the two infinities, which
  \<open>JSON.parse\<close> returns for a literal beyond the range of a double such as \<open>1e400\<close>;
  \<open>JSON.parse\<close> never returns \<open>NaN\<close>, and \<open>-0\<close> is \<open>JNum 0\<close>, from which \<open>===\<close>, \<open>if\<close> and
  \<open>JSON.stringify\<close> do not tell it apart. An object is the list of its own properties,
  the first binding of a name being its value.
\<close>

datatype jsval =
    JUndefined
  | JNull
  | JBool bool
  | JNum real
  | JInfinity
  | JNegInfinity
  | JStr string
  | JArr "jsval list"
  | JObj "(string \<times> jsval) list"

text \<open>The test of \<open>if (v)\<close> and of \<open>v || w\<close>.\<close>

fun truthy :: "jsval \<Rightarrow> bool" where
  "truthy JUndefined = False"
| "truthy JNull = False"
| "truthy (JBool b) = b"
| "truthy (JNum n) = (n \<noteq> 0)"
| "truthy JInfinity = True"
| "truthy JNegInfinity = True"
| "truthy (JStr s) = (s \<noteq> [])"
| "truthy (JArr vs) = True"
| "truthy (JObj kvs) = True"

text \<open>Reading a property of \<open>null\<close> or \<open>undefined\<close> throws a TypeError.\<close>

fun nullish :: "jsval \<Rightarrow> bool" where
  "nullish JUndefined = True"
| "nullish JNull = True"
| "nullish v = False"

text \<open>
  \<open>v.k\<close> for a \<open>v\<close> that is not nullish, and for the names the gateway reads (\<open>s\<close>, \<open>t\<close>,
  \<open>d\<close>, \<open>op\<close>, \<open>heartbeat_interval\<close>, \<open>session_id\<close>): a primitive or an array has none
  of them.
\<close>

fun field :: "jsval \<Rightarrow> string \<Rightarrow> jsval" where
  "field (JObj kvs) k = (case map_of kvs k of Some v \<Rightarrow> v | None \<Rightarrow> JUndefined)"
| "field v k = JUndefined"

text \<open>
  Whether converting the value to a string, in a template literal or by \<open>"OP " + v\<close>,
  throws a TypeError. A parsed object holds no function: when it has an own property
  \<open>toString\<close>, that is not callable, \<open>valueOf\<close> gives no primitive either, and the
  conversion throws; without it \<open>Object.prototype.toString\<close> answers. An array joins the
  strings of its elements, skipping \<open>null\<close>, so it throws when an element does.
\<close>

fun unprintable :: "jsval \<Rightarrow> bool" and unprintable_items :: "jsval list \<Rightarrow> bool" where
  "unprintable (JObj kvs) = (map_of kvs ''toString'' \<noteq> None)"
| "unprintable (JArr vs) = unprintable_items vs"
| "unprintable v = False"
| "unprintable_items [] = False"
| "unprintable_items (v # vs) = (unprintable v \<or> unprintable_items vs)"

text \<open>
  The JSON value that \<open>JSON.stringify\<close> writes: a number that is not finite is written
  as \<open>null\<close>, a property whose value is \<open>undefined\<close> is left out, an \<open>undefined\<close> element
  of an array is written as \<open>null\<close>.
\<close>

fun stringify :: "jsval \<Rightarrow> jsval"
  and stringify_items :: "jsval list \<Rightarrow> jsval list"
  and stringify_props :: "(string \<times> jsval) list \<Rightarrow> (string \<times> jsval) list" where
  "stringify JInfinity = JNull"
| "stringify JNegInfinity = JNull"
| "stringify (JArr vs) = JArr (stringify_items vs)"
| "stringify (JObj kvs) = JObj (stringify_props kvs)"
| "stringify v = v"
| "stringify_items [] = []"
| "stringify_items (v # vs) =
     (if v = JUndefined then JNull else stringify v) # stringify_items vs"
| "stringify_props [] = []"
| "stringify_props ((k, v) # kvs) =
     (if v = JUndefined then stringify_props kvs else (k, stringify v) # stringify_props kvs)"

subsection \<open>What the gateway does to the outside\<close>

datatype logline =
    Connecting
  | SocketOpened
  | FailedToParse
  | SocketError
  | SocketClosed
  | ReceivedReady
  | EventLine
  | ReceivedHello
  | HeartbeatAcked
  | SessionIdLine jsval
  | ReconnectRequested
  | InvalidSession
  | UnhandledEvent
  | CannotIdentify
  | SendingIdentify
  | MaxReconnectReached
  | Reconnecting int nat
  | ReconnectFailed

datatype callback = OnReady jsval | OnMessage jsval | OnError | OnDisconnect

text \<open>
  \<open>Dial url auth n\<close> is \<open>new WebSocket(url, {headers: {Authorization: auth}})\<close> returning
  socket \<open>n\<close>; \<open>Send n v\<close> is \<open>ws.send\<close> on socket \<open>n\<close> of the text of the JSON value \<open>v\<close>;
  \<open>CloseCall n code reason\<close> is \<open>ws.close(code, reason)\<close>; \<open>RejectedToCaller n\<close> is the
  promise of the \<open>n\<close>-th \<open>connect()\<close> rejecting into the caller that awaits it.
\<close>

datatype effect =
    ConsoleLog logline
  | ConsoleError logline
  | Dial string string nat
  | Send nat jsval
  | CloseCall nat int string
  | SetInterval jsval
  | ClearInterval
  | Callback callback
  | Resolved nat
  | RejectedToCaller nat

subsection \<open>The state\<close>

datatype readyState = CONNECTING | OPEN | CLOSING | CLOSED

text \<open>
  \<open>this.onReady\<close>: absent, the function the owner supplied, or the function that
  \<open>connect()\<close> number \<open>n\<close> put in its place, which calls the one it replaced and then
  resolves the promise of that \<open>connect()\<close>.
\<close>

datatype readyHandler = Absent | Supplied | Wrapper nat readyHandler

text \<open>Who took the promise of a \<open>connect()\<close>: the owner, or the \<open>.catch\<close> in \<open>reconnect\<close>.\<close>

datatype awaiter = Caller | ReconnectTimer

datatype pstatus = Pending | Fulfilled | Rejected

text \<open>The two functions the code hands to \<open>setTimeout\<close>.\<close>

datatype timer_action = RunReconnect | RunConnect

text \<open>Whether \<open>new WebSocket(...)\<close> returns a socket or throws.\<close>

datatype dial = Dialled | DialThrows

record FluxerGatewayOptions =
  opt_token :: string
  opt_onReady :: bool
  opt_onMessage :: bool
  opt_onError :: bool
  opt_onDisconnect :: bool

text \<open>
  The fields of the class, under their names, then the runtime's part. A callback field
  is \<open>True\<close> when the owner supplied the function. \<open>heartbeatInterval\<close> is \<open>Some i\<close> while
  the interval timer set with period \<open>i\<close> is running. \<open>created\<close> counts the \<open>connect()\<close>
  calls: call number \<open>n\<close> owns promise \<open>n\<close> and, when the dial returns, socket \<open>n\<close>.
\<close>

record gateway =
  ws :: "nat option"
  token :: string
  sequence :: jsval
  sessionId :: jsval
  resumeUrl :: jsval
  onReady :: readyHandler
  onMessage :: bool
  onError :: bool
  onDisconnect :: bool
  reconnectAttempts :: nat
  maxReconnectAttempts :: nat
  reconnectDelay :: int
  heartbeatInterval :: "jsval option"
  sockets :: "nat \<Rightarrow> readyState option"
  promises :: "nat \<Rightarrow> (pstatus \<times> awaiter) option"
  created :: nat
  timeouts :: "(int \<times> timer_action) list"
  trace :: "effect list"

definition gatewayUrl :: string where
  "gatewayUrl = ''wss://gateway.fluxer.app?v=1''"

definition constructor :: "FluxerGatewayOptions \<Rightarrow> gateway" where
  "constructor options =
     \<lparr> ws = None,
       token = opt_token options,
       sequence = JNum 0,
       sessionId = JNull,
       resumeUrl = JNull,
       onReady = (if opt_onReady options then Supplied else Absent),
       onMessage = opt_onMessage options,
       onError = opt_onError options,
       onDisconnect = opt_onDisconnect options,
       reconnectAttempts = 0,
       maxReconnectAttempts = 5,
       reconnectDelay = 1000,
       heartbeatInterval = None,
       sockets = (\<lambda>n. None),
       promises = (\<lambda>n. None),
       created = 0,
       timeouts = [],
       trace = [] \<rparr>"

subsection \<open>The runtime's primitives\<close>

definition emit :: "effect \<Rightarrow> gateway \<Rightarrow> gateway" where
  "emit e g = g\<lparr>trace := trace g @ [e]\<rparr>"

definition setTimeout :: "timer_action \<Rightarrow> int \<Rightarrow> gateway \<Rightarrow> gateway" where
  "setTimeout a ms g = g\<lparr>timeouts := timeouts g @ [(ms, a)]\<rparr>"

text \<open>Settling a promise a second time does nothing.\<close>

definition resolve :: "nat \<Rightarrow> gateway \<Rightarrow> gateway" where
  "resolve n g =
     (case promises g n of
        Some (Pending, w) \<Rightarrow> emit (Resolved n) (g\<lparr>promises := (promises g)(n \<mapsto> (Fulfilled, w))\<rparr>)
      | _ \<Rightarrow> g)"

text \<open>
  A rejection goes to whoever took the promise: the \<open>.catch\<close> of \<open>reconnect\<close> logs
  "Reconnect failed", the owner's \<open>await\<close> sees the error. The reaction is run here, where
  the promise is rejected; the runtime runs it in a microtask after the handler that
  rejected, which moves its line in the trace and changes nothing else.
\<close>

definition reject :: "nat \<Rightarrow> gateway \<Rightarrow> gateway" where
  "reject n g =
     (case promises g n of
        Some (Pending, w) \<Rightarrow>
          (let g' = g\<lparr>promises := (promises g)(n \<mapsto> (Rejected, w))\<rparr>
           in case w of
                ReconnectTimer \<Rightarrow> emit (ConsoleError ReconnectFailed) g'
              | Caller \<Rightarrow> emit (RejectedToCaller n) g')
      | _ \<Rightarrow> g)"

subsection \<open>The callbacks of the owner\<close>

text \<open>The owner's functions are opaque: a call is recorded, and it returns.\<close>

fun call_onReady :: "readyHandler \<Rightarrow> jsval \<Rightarrow> gateway \<Rightarrow> gateway" where
  "call_onReady Absent d g = g"
| "call_onReady Supplied d g = emit (Callback (OnReady d)) g"
| "call_onReady (Wrapper n h) d g =
     resolve n (call_onReady h d (emit (ConsoleLog ReceivedReady) g))"

definition call_onMessage :: "jsval \<Rightarrow> gateway \<Rightarrow> gateway" where
  "call_onMessage d g = (if onMessage g then emit (Callback (OnMessage d)) g else g)"

definition call_onError :: "gateway \<Rightarrow> gateway" where
  "call_onError g = (if onError g then emit (Callback OnError) g else g)"

definition call_onDisconnect :: "gateway \<Rightarrow> gateway" where
  "call_onDisconnect g = (if onDisconnect g then emit (Callback OnDisconnect) g else g)"

subsection \<open>The methods\<close>

definition isConnected :: "gateway \<Rightarrow> bool" where
  "isConnected g = (case ws g of None \<Rightarrow> False | Some n \<Rightarrow> sockets g n = Some OPEN)"

definition getSessionId :: "gateway \<Rightarrow> jsval" where
  "getSessionId g = sessionId g"

text \<open>
  \<open>connect()\<close>: the body of the promise runs at once. When the dial throws, the \<open>catch\<close>
  rejects the promise; \<open>this.ws\<close> and \<open>this.onReady\<close> keep their values.
\<close>

definition connect :: "awaiter \<Rightarrow> dial \<Rightarrow> gateway \<Rightarrow> gateway" where
  "connect w dl g =
     (let n = created g;
          g1 = g\<lparr>created := Suc n, promises := (promises g)(n \<mapsto> (Pending, w))\<rparr>;
          g2 = emit (ConsoleLog Connecting) g1
      in case dl of
           DialThrows \<Rightarrow> reject n g2
         | Dialled \<Rightarrow>
             (emit (Dial gatewayUrl (''Bot '' @ token g2) n) g2)
               \<lparr>ws := Some n,
                sockets := (sockets g2)(n \<mapsto> CONNECTING),
                onReady := Wrapper n (onReady g2)\<rparr>)"

definition startHeartbeat :: "jsval \<Rightarrow> gateway \<Rightarrow> gateway" where
  "startHeartbeat intervalMs g =
     (let g1 = (case heartbeatInterval g of Some i \<Rightarrow> emit ClearInterval g | None \<Rightarrow> g)
      in (emit (SetInterval intervalMs) g1)\<lparr>heartbeatInterval := Some intervalMs\<rparr>)"

text \<open>The function given to \<open>setInterval\<close>.\<close>

definition heartbeat_tick :: "gateway \<Rightarrow> gateway" where
  "heartbeat_tick g =
     (case ws g of
        None \<Rightarrow> g
      | Some n \<Rightarrow>
          if sockets g n = Some OPEN
          then emit (Send n (stringify (JObj [(''op'', JNum 1), (''d'', sequence g)]))) g
          else g)"

definition identify :: "string \<Rightarrow> jsval" where
  "identify tok =
     JObj [(''op'', JNum 2),
           (''d'', JObj [(''token'', JStr tok),
                         (''intents'', JNum 513),
                         (''properties'', JObj [(''os'', JStr ''node''),
                                                (''browser'', JStr ''FluxerBot''),
                                                (''device'', JStr ''FluxerBot'')])])]"

definition sendIdentify :: "gateway \<Rightarrow> gateway" where
  "sendIdentify g =
     (case ws g of
        None \<Rightarrow> emit (ConsoleError CannotIdentify) g
      | Some n \<Rightarrow>
          if sockets g n \<noteq> Some OPEN then emit (ConsoleError CannotIdentify) g
          else emit (Send n (stringify (identify (token g)))) (emit (ConsoleLog SendingIdentify) g))"

definition reconnect :: "gateway \<Rightarrow> gateway" where
  "reconnect g =
     (let g1 = g\<lparr>reconnectAttempts := reconnectAttempts g + 1\<rparr>;
          delay = reconnectDelay g1 * 2 ^ (reconnectAttempts g1 - 1);
          g2 = emit (ConsoleLog (Reconnecting delay (reconnectAttempts g1))) g1
      in setTimeout RunConnect delay g2)"

definition handleDisconnect :: "gateway \<Rightarrow> gateway" where
  "handleDisconnect g =
     (let g1 = (case heartbeatInterval g of
                  Some i \<Rightarrow> (emit ClearInterval g)\<lparr>heartbeatInterval := None\<rparr>
                | None \<Rightarrow> g)
      in if reconnectAttempts g1 < maxReconnectAttempts g1 then reconnect g1
         else emit (ConsoleError MaxReconnectReached) g1)"

definition disconnect :: "gateway \<Rightarrow> gateway" where
  "disconnect g =
     (let g1 = (case heartbeatInterval g of
                  Some i \<Rightarrow> (emit ClearInterval g)\<lparr>heartbeatInterval := None\<rparr>
                | None \<Rightarrow> g)
      in case ws g1 of
           Some n \<Rightarrow> (emit (CloseCall n 1000 ''Client disconnecting'') g1)\<lparr>ws := None\<rparr>
         | None \<Rightarrow> g1)"

text \<open>
  \<open>handlePayload\<close> returns or throws; what it changed before it throws stays changed.
  It throws where it reads a property of a nullish value (\<open>payload.s\<close>,
  \<open>eventData.heartbeat_interval\<close>, \<open>eventData.session_id\<close>) and where a template literal
  converts a value that has no string: the line \<open>Event: ${eventType || "OP " + opcode}\<close>
  before the \<open>switch\<close>, and the line \<open>Session ID: ${this.sessionId}\<close>. The line
  \<open>Unhandled event: ${eventType}\<close> converts a value the first line has converted already.
\<close>

datatype outcome = Returned gateway | Threw gateway

fun state_of :: "outcome \<Rightarrow> gateway" where
  "state_of (Returned g) = g"
| "state_of (Threw g) = g"

definition handlePayload :: "jsval \<Rightarrow> gateway \<Rightarrow> outcome" where
  "handlePayload payload g =
     (if nullish payload then Threw g
      else
        let g1 = (if truthy (field payload ''s'') then g\<lparr>sequence := field payload ''s''\<rparr> else g);
            eventType = field payload ''t'';
            eventData = field payload ''d'';
            opcode = field payload ''op'';
            g2 = emit (ConsoleLog EventLine) g1
        in
          if (if truthy eventType then unprintable eventType else unprintable opcode)
          then Threw g1
          else if opcode = JNum 10 then
            (let g3 = emit (ConsoleLog ReceivedHello) g2
             in if nullish eventData then Threw g3
                else Returned (sendIdentify (startHeartbeat (field eventData ''heartbeat_interval'') g3)))
          else if opcode = JNum 11 then
            Returned (emit (ConsoleLog HeartbeatAcked) g2)
          else if opcode = JNum 0 then
            (if eventType = JStr ''READY'' then
               (if nullish eventData then Threw g2
                else
                  let g3 = g2\<lparr>sessionId := field eventData ''session_id''\<rparr>;
                      g4 = emit (ConsoleLog (SessionIdLine (sessionId g3))) g3
                  in if unprintable (sessionId g3) then Threw g3
                     else Returned (call_onReady (onReady g4) eventData g4))
             else if eventType = JStr ''MESSAGE_CREATE'' then
               Returned (call_onMessage eventData g2)
             else Returned g2)
          else if opcode = JNum 7 then
            Returned (reconnect (emit (ConsoleLog ReconnectRequested) g2))
          else if opcode = JNum 9 then
            Returned (setTimeout RunReconnect (reconnectDelay g2) (emit (ConsoleLog InvalidSession) g2))
          else
            (if truthy eventType then Returned (emit (ConsoleLog UnhandledEvent) g2)
             else Returned g2))"

subsection \<open>The handlers that \<open>connect()\<close> attaches to its socket\<close>

definition on_open :: "gateway \<Rightarrow> gateway" where
  "on_open g = emit (ConsoleLog SocketOpened) g"

text \<open>The frame is \<open>None\<close> when \<open>JSON.parse\<close> throws on it.\<close>

definition on_message :: "jsval option \<Rightarrow> gateway \<Rightarrow> gateway" where
  "on_message frame g =
     (case frame of
        None \<Rightarrow> emit (ConsoleError FailedToParse) g
      | Some payload \<Rightarrow>
          (case handlePayload payload g of
             Returned g' \<Rightarrow> g'
           | Threw g' \<Rightarrow> emit (ConsoleError FailedToParse) g'))"

text \<open>The handler of socket \<open>n\<close> rejects the promise of \<open>connect()\<close> number \<open>n\<close>.\<close>

definition on_error :: "nat \<Rightarrow> gateway \<Rightarrow> gateway" where
  "on_error n g = reject n (call_onError (emit (ConsoleError SocketError) g))"

definition on_close :: "gateway \<Rightarrow> gateway" where
  "on_close g = handleDisconnect (call_onDisconnect (emit (ConsoleLog SocketClosed) g))"

subsection \<open>Events\<close>

text \<open>
  One step of the event loop. An event of a socket that was never created, a timeout
  that is not pending and a tick of an interval that is not running do not happen.
  The socket's \<open>readyState\<close> is the runtime's: open and close events set it.
\<close>

datatype event =
    CallConnect dial
  | CallDisconnect
  | WsOpen nat
  | WsMessage nat "jsval option"
  | WsError nat
  | WsClose nat
  | TimeoutFires nat dial
  | IntervalTick

fun run_timer :: "timer_action \<Rightarrow> dial \<Rightarrow> gateway \<Rightarrow> gateway" where
  "run_timer RunReconnect dl g = reconnect g"
| "run_timer RunConnect dl g = connect ReconnectTimer dl g"

fun fire :: "event \<Rightarrow> gateway \<Rightarrow> gateway" where
  "fire (CallConnect dl) g = connect Caller dl g"
| "fire CallDisconnect g = disconnect g"
| "fire (WsOpen n) g =
     (if sockets g n = None then g
      else on_open (g\<lparr>sockets := (sockets g)(n \<mapsto> OPEN)\<rparr>))"
| "fire (WsMessage n frame) g =
     (if sockets g n = None then g else on_message frame g)"
| "fire (WsError n) g =
     (if sockets g n = None then g else on_error n g)"
| "fire (WsClose n) g =
     (if sockets g n = None then g
      else on_close (g\<lparr>sockets := (sockets g)(n \<mapsto> CLOSED)\<rparr>))"
| "fire (TimeoutFires i dl) g =
     (if i < length (timeouts g)
      then run_timer (snd (timeouts g ! i)) dl
             (g\<lparr>timeouts := take i (timeouts g) @ drop (Suc i) (timeouts g)\<rparr>)
      else g)"
| "fire IntervalTick g =
     (if heartbeatInterval g = None then g else heartbeat_tick g)"

definition run :: "event list \<Rightarrow> gateway \<Rightarrow> gateway" where
  "run evs g = foldl (\<lambda>s e. fire e s) g evs"

definition receive :: "jsval list \<Rightarrow> gateway \<Rightarrow> gateway" where
  "receive ps g = foldl (\<lambda>s p. on_message (Some p) s) g ps"

subsection \<open>The owner (extensions/fluxer/src/channel.ts)\<close>

text \<open>
  The module keeps one gateway in the variable \<open>fluxerGateway\<close>. \<open>startFluxerGateway\<close>
  is modelled up to its \<open>await\<close>: the guard, the construction with all four callbacks
  and the call of \<open>connect()\<close>.
\<close>

datatype chanline = AlreadyConnected | StartingConnection

record channel =
  fluxerGateway :: "gateway option"
  console :: "chanline list"

definition owner_options :: "string \<Rightarrow> FluxerGatewayOptions" where
  "owner_options tok =
     \<lparr> opt_token = tok, opt_onReady = True, opt_onMessage = True,
       opt_onError = True, opt_onDisconnect = True \<rparr>"

definition startFluxerGateway :: "string \<Rightarrow> dial \<Rightarrow> channel \<Rightarrow> channel" where
  "startFluxerGateway tok dl c =
     (if (case fluxerGateway c of Some g \<Rightarrow> isConnected g | None \<Rightarrow> False)
      then c\<lparr>console := console c @ [AlreadyConnected]\<rparr>
      else c\<lparr>console := console c @ [StartingConnection],
             fluxerGateway := Some (connect Caller dl (constructor (owner_options tok)))\<rparr>)"

subsection \<open>Frames and scenarios\<close>

definition hello_frame :: "real \<Rightarrow> jsval" where
  "hello_frame interval =
     JObj [(''op'', JNum 10), (''d'', JObj [(''heartbeat_interval'', JNum interval)])]"

definition ready_frame :: "string \<Rightarrow> nat \<Rightarrow> jsval" where
  "ready_frame sid s =
     JObj [(''op'', JNum 0), (''t'', JStr ''READY''), (''s'', JNum (real s)),
           (''d'', JObj [(''session_id'', JStr sid)])]"

definition dispatch :: "nat \<Rightarrow> jsval \<Rightarrow> jsval \<Rightarrow> jsval" where
  "dispatch s t d = JObj [(''op'', JNum 0), (''t'', t), (''s'', JNum (real s)), (''d'', d)]"

definition dispatches :: "(nat \<times> jsval \<times> jsval) list \<Rightarrow> jsval list" where
  "dispatches fs = map (\<lambda>(s, t, d). dispatch s t d) fs"

definition opcode_frame :: "real \<Rightarrow> jsval" where
  "opcode_frame n = JObj [(''op'', JNum n)]"

definition heartbeat :: "jsval \<Rightarrow> jsval" where
  "heartbeat d = JObj [(''op'', JNum 1), (''d'', d)]"

fun is_dial :: "effect \<Rightarrow> bool" where
  "is_dial (Dial url auth n) = True"
| "is_dial e = False"

fun is_callback :: "effect \<Rightarrow> bool" where
  "is_callback (Callback c) = True"
| "is_callback e = False"

text \<open>A gateway as \<open>startFluxerGateway\<close> constructs it.\<close>

definition fresh :: gateway where
  "fresh = constructor (owner_options ''token'')"

text \<open>Dial socket \<open>n\<close>'s handshake to the end: open, Hello, READY.\<close>

definition handshake :: "nat \<Rightarrow> event list" where
  "handshake n =
     [WsOpen n, WsMessage n (Some (hello_frame 41250)), WsMessage n (Some (ready_frame ''abc'' 1))]"

text \<open>A dial that fails: the socket reports an error and closes.\<close>

definition failure :: "nat \<Rightarrow> event list" where
  "failure n = [WsError n, WsClose n]"

text \<open>The states the scenarios below start from, each reached from a new gateway.\<close>

definition connected :: gateway where
  "connected = run (CallConnect Dialled # handshake 0) fresh"

definition awaiting_ready :: gateway where
  "awaiting_ready =
     run [CallConnect Dialled, WsOpen 0, WsMessage 0 (Some (hello_frame 41250))] fresh"

definition in_session :: gateway where
  "in_session =
     fire (WsMessage 0 (Some (dispatch 5 (JStr ''MESSAGE_CREATE'') (JObj [(''id'', JStr ''abc'')]))))
       connected"




definition exhausted :: gateway where
  "exhausted =
     run (CallConnect Dialled # failure 0 @ TimeoutFires 0 Dialled # failure 1 @
          TimeoutFires 0 Dialled # failure 2 @ TimeoutFires 0 Dialled # failure 3 @
          TimeoutFires 0 Dialled # failure 4 @ TimeoutFires 0 Dialled # handshake 5 @
          [WsMessage 5 (Some (opcode_frame 7))]) fresh"

text \<open>
  The gateway of a session that saw sequence number 5, after its transport closed and
  the automatic reconnect dialled again, opened and received Hello.
\<close>

definition resumed :: gateway where
  "resumed =
     run [WsClose 0, TimeoutFires 0 Dialled, WsOpen 1, WsMessage 1 (Some (hello_frame 41250))]
       in_session"

text \<open>The connected gateway after opcode 7 and its timeout: a new socket, not open yet.\<close>

definition redialling :: gateway where
  "redialling = run [WsMessage 0 (Some (opcode_frame 7)), TimeoutFires 0 Dialled] connected"

text \<open>An event that is a frame with a truthy \<open>s\<close>.\<close>

fun carries_sequence :: "event \<Rightarrow> bool" where
  "carries_sequence (WsMessage n (Some payload)) = truthy (field payload ''s'')"
| "carries_sequence e = False"

text \<open>What a step added to the trace.\<close>

definition added :: "gateway \<Rightarrow> gateway \<Rightarrow> effect list" where
  "added g g' = drop (length (trace g)) (trace g')"

section \<open>Which fields each step touches\<close>

lemma emit_fields [simp]:
  "ws (emit e g) = ws g" "token (emit e g) = token g" "sequence (emit e g) = sequence g"
  "sessionId (emit e g) = sessionId g" "resumeUrl (emit e g) = resumeUrl g"
  "onReady (emit e g) = onReady g" "onMessage (emit e g) = onMessage g"
  "onError (emit e g) = onError g" "onDisconnect (emit e g) = onDisconnect g"
  "reconnectAttempts (emit e g) = reconnectAttempts g"
  "maxReconnectAttempts (emit e g) = maxReconnectAttempts g"
  "reconnectDelay (emit e g) = reconnectDelay g"
  "heartbeatInterval (emit e g) = heartbeatInterval g"
  "sockets (emit e g) = sockets g" "promises (emit e g) = promises g"
  "created (emit e g) = created g" "timeouts (emit e g) = timeouts g"
  "trace (emit e g) = trace g @ [e]"
  by (simp_all add: emit_def)

lemma resolve_fields [simp]:
  "ws (resolve n g) = ws g" "sequence (resolve n g) = sequence g"
  "sessionId (resolve n g) = sessionId g" "resumeUrl (resolve n g) = resumeUrl g"
  "onReady (resolve n g) = onReady g"
  "reconnectAttempts (resolve n g) = reconnectAttempts g"
  "maxReconnectAttempts (resolve n g) = maxReconnectAttempts g"
  "reconnectDelay (resolve n g) = reconnectDelay g"
  "heartbeatInterval (resolve n g) = heartbeatInterval g"
  "sockets (resolve n g) = sockets g"
  "created (resolve n g) = created g" "timeouts (resolve n g) = timeouts g"
  by (simp_all add: resolve_def split: option.splits pstatus.splits prod.splits)

lemma reject_fields [simp]:
  "ws (reject n g) = ws g" "sequence (reject n g) = sequence g"
  "sessionId (reject n g) = sessionId g" "resumeUrl (reject n g) = resumeUrl g"
  "onReady (reject n g) = onReady g"
  "reconnectAttempts (reject n g) = reconnectAttempts g"
  "maxReconnectAttempts (reject n g) = maxReconnectAttempts g"
  "reconnectDelay (reject n g) = reconnectDelay g"
  "heartbeatInterval (reject n g) = heartbeatInterval g"
  "sockets (reject n g) = sockets g"
  "created (reject n g) = created g" "timeouts (reject n g) = timeouts g"
  by (simp_all add: reject_def Let_def split: option.splits pstatus.splits prod.splits awaiter.splits)

lemma call_onReady_fields [simp]:
  "ws (call_onReady h d g) = ws g"
  "sequence (call_onReady h d g) = sequence g"
  "sessionId (call_onReady h d g) = sessionId g"
  "resumeUrl (call_onReady h d g) = resumeUrl g"
  "onReady (call_onReady h d g) = onReady g"
  "reconnectAttempts (call_onReady h d g) = reconnectAttempts g"
  "maxReconnectAttempts (call_onReady h d g) = maxReconnectAttempts g"
  "reconnectDelay (call_onReady h d g) = reconnectDelay g"
  "heartbeatInterval (call_onReady h d g) = heartbeatInterval g"
  "sockets (call_onReady h d g) = sockets g"
  "created (call_onReady h d g) = created g"
  "timeouts (call_onReady h d g) = timeouts g"
  by (induction h d g rule: call_onReady.induct) simp_all

lemmas step_defs =
  handlePayload_def Let_def startHeartbeat_def sendIdentify_def reconnect_def
  setTimeout_def call_onMessage_def call_onError_def call_onDisconnect_def
  handleDisconnect_def on_close_def on_error_def on_open_def connect_def disconnect_def
  heartbeat_tick_def





lemma sequence_handlePayload:
  "sequence (state_of (handlePayload payload g)) =
     (if truthy (field payload ''s'') then field payload ''s'' else sequence g)"
  by (cases payload) (simp_all add: step_defs split: option.splits)

lemma sequence_on_message:
  "sequence (on_message (Some payload) g) =
     (if truthy (field payload ''s'') then field payload ''s'' else sequence g)"
  using sequence_handlePayload [of payload g]
  by (cases "handlePayload payload g") (simp_all add: on_message_def)





lemmas scenario_defs =
  run_def handshake_def failure_def fresh_def constructor_def owner_options_def
  connect_def emit_def on_open_def on_message_def on_error_def on_close_def handlePayload_def
  reject_def resolve_def call_onError_def call_onDisconnect_def call_onMessage_def
  handleDisconnect_def reconnect_def setTimeout_def startHeartbeat_def sendIdentify_def
  heartbeat_tick_def disconnect_def hello_frame_def ready_frame_def dispatch_def
  opcode_frame_def isConnected_def getSessionId_def Let_def gatewayUrl_def identify_def
  heartbeat_def

section \<open>The tracked sequence number\<close>

text \<open>
  Claim C10. \<open>handlePayload\<close> takes the tracked sequence number from the \<open>s\<close> of every
  payload whose \<open>s\<close> is truthy, whatever the opcode (the payload is arbitrary here: a
  heartbeat ACK or an unknown opcode with a nonzero \<open>s\<close> overwrites it too); a payload
  whose \<open>s\<close> is \<open>0\<close>, \<open>null\<close> or absent leaves it as it was. This holds also when
  \<open>handlePayload\<close> throws further down.
\<close>

theorem handlePayload_sequence_any_opcode:
  "(truthy (field payload ''s'') \<longrightarrow>
      sequence (state_of (handlePayload payload g)) = field payload ''s'') \<and>
   (field payload ''s'' \<in> {JNum 0, JNull, JUndefined} \<longrightarrow>
      sequence (state_of (handlePayload payload g)) = sequence g)"
  using sequence_handlePayload [of payload g] by auto

text \<open>
  Witness for C10: a heartbeat ACK carrying \<open>s = 7\<close> sets the sequence to 7, and a
  dispatch carrying \<open>s = 0\<close> leaves a tracked 7 in place.
\<close>

theorem handlePayload_sequence_any_opcode_witness:
  "truthy (field (JObj [(''op'', JNum 11), (''s'', JNum 7)]) ''s'') \<and>
   sequence (state_of (handlePayload (JObj [(''op'', JNum 11), (''s'', JNum 7)]) fresh)) = JNum 7 \<and>
   field (JObj [(''op'', JNum 0), (''s'', JNum 0)]) ''s'' \<in> {JNum 0, JNull, JUndefined} \<and>
   sequence (state_of (handlePayload (JObj [(''op'', JNum 0), (''s'', JNum 0)])
      (fresh\<lparr>sequence := JNum 7\<rparr>))) = JNum 7"
  using handlePayload_sequence_any_opcode [of "JObj [(''op'', JNum 11), (''s'', JNum 7)]" fresh]
        handlePayload_sequence_any_opcode [of "JObj [(''op'', JNum 0), (''s'', JNum 0)]"
          "fresh\<lparr>sequence := JNum 7\<rparr>"]
  by simp

lemma field_dispatch_s [simp]: "field (dispatch s t d) ''s'' = JNum (real s)"
  by (simp add: dispatch_def)

lemma receive_Cons: "receive (p # ps) g = receive ps (on_message (Some p) g)"
  by (simp add: receive_def)

lemma receive_dispatches_from:
  "sequence g = JNum (real m) \<Longrightarrow> sorted_wrt (<) (map fst fs) \<Longrightarrow>
   \<forall>s \<in> set (map fst fs). m \<le> s \<Longrightarrow>
   sequence (receive (dispatches fs) g) = JNum (real (Max (insert m (set (map fst fs)))))"
proof (induction fs arbitrary: g m)
  case Nil
  then show ?case by (simp add: dispatches_def receive_def)
next
  case (Cons f fs)
  obtain s t d where f: "f = (s, t, d)" by (cases f)
  let ?g = "on_message (Some (dispatch s t d)) g"
  from Cons.prems f have ms: "m \<le> s" by simp
  have seq: "sequence ?g = JNum (real s)"
    using Cons.prems(1) ms by (simp add: sequence_on_message)
  from Cons.prems f have sorted: "sorted_wrt (<) (map fst fs)"
    and above: "\<forall>x \<in> set (map fst fs). s \<le> x" by auto
  have "sequence (receive (dispatches fs) ?g) = JNum (real (Max (insert s (set (map fst fs)))))"
    by (rule Cons.IH [OF seq sorted above])
  moreover have "Max (insert m (set (map fst (f # fs)))) = Max (insert s (set (map fst fs)))"
  proof -
    have "s \<le> Max (insert s (set (map fst fs)))" by (rule Max_ge) simp_all
    with ms have "m \<le> Max (insert s (set (map fst fs)))" by (rule order_trans)
    then show ?thesis using f by (simp add: max_absorb2)
  qed
  moreover have "receive (dispatches (f # fs)) g = receive (dispatches fs) ?g"
    using f by (simp add: dispatches_def receive_Cons)
  ultimately show ?case by simp
qed

lemma receive_dispatches_nonzero:
  assumes "fs \<noteq> []" and "sorted_wrt (<) (map fst fs)" and "fst (hd fs) \<noteq> 0"
  shows "sequence (receive (dispatches fs) g) = JNum (real (Max (set (map fst fs))))"
proof -
  from assms(1) obtain s t d fs' where fs: "fs = (s, t, d) # fs'"
    by (cases fs) auto
  let ?g = "on_message (Some (dispatch s t d)) g"
  have seq: "sequence ?g = JNum (real s)"
    using assms(3) fs by (simp add: sequence_on_message)
  from assms(2) fs have sorted: "sorted_wrt (<) (map fst fs')"
    and above: "\<forall>x \<in> set (map fst fs'). s \<le> x" by auto
  have "sequence (receive (dispatches fs') ?g) = JNum (real (Max (insert s (set (map fst fs')))))"
    by (rule receive_dispatches_from [OF seq sorted above])
  moreover have "receive (dispatches fs) g = receive (dispatches fs') ?g"
    using fs by (simp add: dispatches_def receive_Cons)
  ultimately show ?thesis using fs by simp
qed

text \<open>
  Claim C8, as the code has it. Dispatch frames whose \<open>s\<close> values (sequence counters,
  natural numbers) increase are received in order. Afterwards the tracked sequence is
  the greatest \<open>s\<close> received when that is not 0, and also when it is 0 and the gateway
  still tracked the 0 it is constructed with. A frame with \<open>s = 0\<close> is skipped by
  \<open>if (payload.s)\<close>: while 0 is the only \<open>s\<close> received, the tracked sequence keeps the
  value it had, whatever that was. The event type and the data of each frame are
  arbitrary.
\<close>

theorem dispatch_sequence_is_max:
  assumes "fs \<noteq> []" and "sorted_wrt (<) (map fst fs)"
  shows "sequence (receive (dispatches fs) g) =
           (if Max (set (map fst fs)) = 0 then sequence g
            else JNum (real (Max (set (map fst fs))))) \<and>
         (sequence g = JNum 0 \<longrightarrow>
            sequence (receive (dispatches fs) g) = JNum (real (Max (set (map fst fs)))))"
proof -
  have main: "sequence (receive (dispatches fs) g) =
           (if Max (set (map fst fs)) = 0 then sequence g
            else JNum (real (Max (set (map fst fs)))))"
  proof (cases "fst (hd fs) = 0")
    case False
    have "fst (hd fs) \<in> set (map fst fs)" using assms(1) by (cases fs) auto
    then have "fst (hd fs) \<le> Max (set (map fst fs))" by (intro Max_ge) simp_all
    with False have "Max (set (map fst fs)) \<noteq> 0" by simp
    then show ?thesis
      using receive_dispatches_nonzero [OF assms False] by simp
  next
    case True
    with assms(1) obtain t d fs' where fs: "fs = (0, t, d) # fs'"
      by (cases fs) auto
    let ?g = "on_message (Some (dispatch 0 t d)) g"
    have seq: "sequence ?g = sequence g" by (simp add: sequence_on_message)
    have step: "receive (dispatches fs) g = receive (dispatches fs') ?g"
      using fs by (simp add: dispatches_def receive_Cons)
    show ?thesis
    proof (cases "fs' = []")
      case True
      then show ?thesis using fs seq step by (simp add: dispatches_def receive_def)
    next
      case False
      from assms(2) fs have sorted: "sorted_wrt (<) (map fst fs')"
        and above: "\<forall>x \<in> set (map fst fs'). 0 < x" by auto
      have "fst (hd fs') \<in> set (map fst fs')" using False by (cases fs') auto
      with above have pos: "0 < fst (hd fs')" by blast
      then have nz: "fst (hd fs') \<noteq> 0" by simp
      have "fst (hd fs') \<le> Max (set (map fst fs'))"
        using False by (intro Max_ge) (cases fs'; simp)+
      with pos have mpos: "0 < Max (set (map fst fs'))" by simp
      have "Max (set (map fst fs)) = Max (set (map fst fs'))"
        using fs False by (simp add: max_absorb2)
      then show ?thesis
        using receive_dispatches_nonzero [OF False sorted nz, of ?g] step mpos by simp
    qed
  qed
  then show ?thesis by auto
qed

text \<open>
  Witness for C8: frames with \<open>s\<close> = 0, 1, 5 into a new gateway leave 5.
\<close>

theorem dispatch_sequence_is_max_witness:
  "[(0, JStr ''GUILD_CREATE'', JNull), (1, JStr ''READY'', JNull),
    (5, JStr ''MESSAGE_CREATE'', JObj [(''id'', JStr ''abc'')])] \<noteq> [] \<and>
   sorted_wrt (<) (map fst [(0::nat, JStr ''GUILD_CREATE'', JNull), (1, JStr ''READY'', JNull),
    (5, JStr ''MESSAGE_CREATE'', JObj [(''id'', JStr ''abc'')])]) \<and>
   sequence fresh = JNum 0 \<and>
   sequence (receive (dispatches [(0, JStr ''GUILD_CREATE'', JNull), (1, JStr ''READY'', JNull),
    (5, JStr ''MESSAGE_CREATE'', JObj [(''id'', JStr ''abc'')])]) fresh) = JNum 5"
  using dispatch_sequence_is_max [of "[(0, JStr ''GUILD_CREATE'', JNull), (1, JStr ''READY'', JNull),
    (5, JStr ''MESSAGE_CREATE'', JObj [(''id'', JStr ''abc'')])]" fresh]
  by (simp add: fresh_def constructor_def)

text \<open>
  Against C8 as stated: a session that saw sequence number 5 loses its transport, the
  gateway reconnects by itself and receives Hello. The first dispatch of the new session
  carries \<open>s = 0\<close>: the greatest \<open>s\<close> of that sequence of frames is 0, and the tracked
  sequence is still 5.
\<close>

theorem first_zero_keeps_stale_sequence:
  "isConnected resumed \<and>
   sorted_wrt (<) (map fst [(0::nat, JStr ''READY'', JObj [(''session_id'', JStr ''def'')])]) \<and>
   Max (set (map fst [(0::nat, JStr ''READY'', JObj [(''session_id'', JStr ''def'')])])) = 0 \<and>
   sequence (receive (dispatches [(0, JStr ''READY'', JObj [(''session_id'', JStr ''def'')])])
     resumed) = JNum 5"
  by (simp add: resumed_def in_session_def connected_def receive_def dispatches_def scenario_defs)



lemma constants_handlePayload [simp]:
  "reconnectDelay (state_of (handlePayload p g)) = reconnectDelay g"
  "maxReconnectAttempts (state_of (handlePayload p g)) = maxReconnectAttempts g"
  "created (state_of (handlePayload p g)) = created g"
  by (cases p; simp add: step_defs split: option.splits)+



section \<open>The backoff counter\<close>




lemma trace_handleDisconnect_exhausted:
  "maxReconnectAttempts g \<le> reconnectAttempts g \<Longrightarrow>
   trace (handleDisconnect g) =
     trace g @ (if heartbeatInterval g = None then [] else [ClearInterval]) @
       [ConsoleError MaxReconnectReached]"
  by (simp add: handleDisconnect_def Let_def split: option.splits)

lemma handleDisconnect_exhausted_fields:
  "maxReconnectAttempts g \<le> reconnectAttempts g \<Longrightarrow>
   timeouts (handleDisconnect g) = timeouts g \<and> created (handleDisconnect g) = created g \<and>
   reconnectAttempts (handleDisconnect g) = reconnectAttempts g"
  by (simp add: handleDisconnect_def Let_def split: option.splits)

section \<open>Exhaustion\<close>

text \<open>
  Claim C2, as the code has it. Once the attempt counter has reached the configured
  maximum, the close of a transport schedules no \<open>connect()\<close>: no timeout is added,
  nothing is dialled, the counter stays. The exhaustion is logged with
  \<open>console.error\<close> and not otherwise reported: the Error callback is not called, and the
  Disconnect callback is the one every close calls, before the counter is looked at.
\<close>

theorem exhausted_close_only_logs:
  assumes "maxReconnectAttempts g \<le> reconnectAttempts g" and "sockets g n \<noteq> None"
  shows "timeouts (fire (WsClose n) g) = timeouts g \<and>
         created (fire (WsClose n) g) = created g \<and>
         reconnectAttempts (fire (WsClose n) g) = reconnectAttempts g \<and>
         trace (fire (WsClose n) g) =
           trace g @ [ConsoleLog SocketClosed] @
             (if onDisconnect g then [Callback OnDisconnect] else []) @
             (if heartbeatInterval g = None then [] else [ClearInterval]) @
             [ConsoleError MaxReconnectReached]"
proof -
  let ?g = "call_onDisconnect (emit (ConsoleLog SocketClosed) (g\<lparr>sockets := (sockets g)(n \<mapsto> CLOSED)\<rparr>))"
  have fire: "fire (WsClose n) g = handleDisconnect ?g"
    using assms(2) by (cases "sockets g n") (simp_all add: on_close_def)
  have ex: "maxReconnectAttempts ?g \<le> reconnectAttempts ?g"
    using assms(1) by (simp add: call_onDisconnect_def)
  have "trace ?g = trace g @ [ConsoleLog SocketClosed] @
      (if onDisconnect g then [Callback OnDisconnect] else [])"
    and "heartbeatInterval ?g = heartbeatInterval g" and "timeouts ?g = timeouts g"
    and "created ?g = created g" and "reconnectAttempts ?g = reconnectAttempts g"
    by (simp_all add: call_onDisconnect_def)
  then show ?thesis
    unfolding fire
    using trace_handleDisconnect_exhausted [OF ex] handleDisconnect_exhausted_fields [OF ex]
    by simp
qed

text \<open>
  Witness for C2: with the counter at 6 of 5, the close of socket 5 adds the log line,
  the Disconnect callback, the clearing of the heartbeat and the error line, and
  schedules nothing.
\<close>

theorem exhausted_close_only_logs_witness:
  "maxReconnectAttempts exhausted \<le> reconnectAttempts exhausted \<and>
   sockets exhausted 5 \<noteq> None \<and>
   timeouts (fire (WsClose 5) exhausted) = [(32000, RunConnect)] \<and>
   created (fire (WsClose 5) exhausted) = 6 \<and>
   reconnectAttempts (fire (WsClose 5) exhausted) = 6 \<and>
   added exhausted (fire (WsClose 5) exhausted) =
     [ConsoleLog SocketClosed, Callback OnDisconnect, ClearInterval,
      ConsoleError MaxReconnectReached]"
proof -
  have e: "maxReconnectAttempts exhausted \<le> reconnectAttempts exhausted"
    and s: "sockets exhausted 5 \<noteq> None"
    and t: "timeouts exhausted = [(32000, RunConnect)]" and c: "created exhausted = 6"
    and a: "reconnectAttempts exhausted = 6" and d: "onDisconnect exhausted"
    and h: "heartbeatInterval exhausted = Some (JNum 41250)"
    by (simp_all add: exhausted_def added_def scenario_defs)
  show ?thesis
    using exhausted_close_only_logs [OF e s] e s t c a d h by (simp add: added_def)
qed

text \<open>
  Against C2 as stated: with the counter at 6, above the maximum of 5, opcode 7 still
  schedules a \<open>connect()\<close> (after 64000 ms) and opcode 9 still schedules a reconnect;
  and a close in that state calls the same callback as the close of the very first
  dial, the Disconnect callback, and never the Error callback.
\<close>

theorem exhausted_still_reconnects:
  "reconnectAttempts exhausted = 6 \<and> maxReconnectAttempts exhausted = 5 \<and>
   timeouts exhausted = [(32000, RunConnect)] \<and>
   timeouts (fire (WsMessage 5 (Some (opcode_frame 7))) exhausted) =
     [(32000, RunConnect), (64000, RunConnect)] \<and>
   timeouts (fire (WsMessage 5 (Some (opcode_frame 9))) exhausted) =
     [(32000, RunConnect), (1000, RunReconnect)] \<and>
   filter is_callback (added exhausted (fire (WsClose 5) exhausted)) = [Callback OnDisconnect] \<and>
   filter is_callback
     (added (fire (CallConnect Dialled) fresh) (fire (WsClose 0) (fire (CallConnect Dialled) fresh))) =
     [Callback OnDisconnect]"
  by (simp add: exhausted_def added_def scenario_defs)

section \<open>The delay of a reconnect\<close>




section \<open>Invalid session\<close>




section \<open>Connecting while connected\<close>

text \<open>
  Claim C4, as the code has it. \<open>connect()\<close> has no guard: whatever the state, also when
  \<open>isConnected()\<close> holds, a call whose dial returns opens a new transport, makes it
  \<open>this.ws\<close> and takes a new promise. The guard is in the owner: \<open>startFluxerGateway\<close>
  called while its gateway is connected keeps that gateway and does not call
  \<open>connect()\<close>.
\<close>

theorem connect_always_dials:
  "ws (connect w Dialled g) = Some (created g) \<and>
   sockets (connect w Dialled g) (created g) = Some CONNECTING \<and>
   created (connect w Dialled g) = Suc (created g) \<and>
   trace (connect w Dialled g) =
     trace g @ [ConsoleLog Connecting, Dial gatewayUrl (''Bot '' @ token g) (created g)] \<and>
   (isConnected g \<longrightarrow>
      startFluxerGateway tok dl \<lparr>fluxerGateway = Some g, console = c\<rparr> =
        \<lparr>fluxerGateway = Some g, console = c @ [AlreadyConnected]\<rparr>)"
  by (simp add: connect_def Let_def startFluxerGateway_def)

text \<open>Witness for C4: the owner's guard holds the connected gateway back.\<close>

theorem connect_always_dials_witness:
  "isConnected connected \<and>
   ws (connect Caller Dialled connected) = Some 1 \<and>
   startFluxerGateway ''token'' Dialled \<lparr>fluxerGateway = Some connected, console = []\<rparr> =
     \<lparr>fluxerGateway = Some connected, console = [AlreadyConnected]\<rparr>"
proof -
  have c: "isConnected connected" and n: "created connected = 1"
    by (simp_all add: connected_def scenario_defs)
  show ?thesis
    using connect_always_dials [of Caller connected "''token''" Dialled "[]"] c n by simp
qed

text \<open>
  Against C4 as stated: a gateway that is connected on socket 0 is told to connect. A
  second dial of the endpoint is in the trace, \<open>this.ws\<close> is the new socket 1, and the
  gateway no longer counts as connected.
\<close>

theorem connect_while_connected_dials_again:
  "isConnected connected \<and> ws connected = Some 0 \<and>
   filter is_dial (trace (fire (CallConnect Dialled) connected)) =
     [Dial ''wss://gateway.fluxer.app?v=1'' ''Bot token'' 0,
      Dial ''wss://gateway.fluxer.app?v=1'' ''Bot token'' 1] \<and>
   ws (fire (CallConnect Dialled) connected) = Some 1 \<and>
   \<not> isConnected (fire (CallConnect Dialled) connected)"
  by (simp add: connected_def scenario_defs)

section \<open>Disconnecting\<close>

lemma disconnect_fields:
  "heartbeatInterval (disconnect g) = None"
  "ws (disconnect g) = None"
  "sequence (disconnect g) = sequence g"
  "sessionId (disconnect g) = sessionId g"
  "resumeUrl (disconnect g) = resumeUrl g"
  "timeouts (disconnect g) = timeouts g"
  "reconnectAttempts (disconnect g) = reconnectAttempts g"
  "maxReconnectAttempts (disconnect g) = maxReconnectAttempts g"
  "reconnectDelay (disconnect g) = reconnectDelay g"
  "sockets (disconnect g) = sockets g"
  "created (disconnect g) = created g"
  "trace (disconnect g) =
     trace g @ (if heartbeatInterval g = None then [] else [ClearInterval]) @
       (case ws g of Some n \<Rightarrow> [CloseCall n 1000 ''Client disconnecting''] | None \<Rightarrow> [])"
  by (simp_all add: disconnect_def Let_def split: option.splits)

lemma disconnect_idle:
  "heartbeatInterval g = None \<Longrightarrow> ws g = None \<Longrightarrow> disconnect g = g"
  by (simp add: disconnect_def)

text \<open>
  Claim C5, as the code has it. \<open>disconnect()\<close> cancels the heartbeat timer when one is
  running, closes the transport with code 1000 when there is one and forgets it, so that
  \<open>isConnected()\<close> is false afterwards. It leaves the sequence number, the session id and
  the resume URL as they were: \<open>getSessionId()\<close> returns what it returned before. A
  second call in a row changes nothing and does nothing.
\<close>

theorem disconnect_keeps_session:
  "heartbeatInterval (disconnect g) = None \<and>
   ws (disconnect g) = None \<and>
   \<not> isConnected (disconnect g) \<and>
   trace (disconnect g) =
     trace g @ (if heartbeatInterval g = None then [] else [ClearInterval]) @
       (case ws g of Some n \<Rightarrow> [CloseCall n 1000 ''Client disconnecting''] | None \<Rightarrow> []) \<and>
   sequence (disconnect g) = sequence g \<and>
   getSessionId (disconnect g) = getSessionId g \<and>
   resumeUrl (disconnect g) = resumeUrl g \<and>
   disconnect (disconnect g) = disconnect g"
  by (simp add: disconnect_fields disconnect_idle isConnected_def getSessionId_def)

text \<open>Witness for C5: disconnecting the gateway of a running session.\<close>

theorem disconnect_keeps_session_witness:
  "added in_session (disconnect in_session) =
     [ClearInterval, CloseCall 0 1000 ''Client disconnecting''] \<and>
   \<not> isConnected (disconnect in_session) \<and>
   disconnect (disconnect in_session) = disconnect in_session"
proof -
  have "heartbeatInterval in_session = Some (JNum 41250)" and "ws in_session = Some 0"
    by (simp_all add: connected_def in_session_def added_def scenario_defs)
  then show ?thesis
    using disconnect_keeps_session [of in_session] by (simp add: added_def)
qed

text \<open>
  Against C5 as stated: a session with id \<open>abc\<close> that has seen sequence number 5 is
  disconnected. \<open>getSessionId()\<close> still returns \<open>abc\<close>, not the \<open>null\<close> of a new gateway,
  and the sequence number is still 5, not the 0 of a new gateway.
\<close>

theorem disconnect_leaves_session_state:
  "getSessionId (disconnect in_session) = JStr ''abc'' \<and>
   sequence (disconnect in_session) = JNum 5 \<and>
   getSessionId fresh = JNull \<and> sequence fresh = JNum 0"
  by (simp add: connected_def in_session_def scenario_defs)




section \<open>The heartbeat\<close>

lemma sequence_fire_quiet: "\<not> carries_sequence e \<Longrightarrow> sequence (fire e g) = sequence g"
proof (cases e)
  case (WsMessage n frame)
  assume quiet: "\<not> carries_sequence e"
  show ?thesis
  proof (cases frame)
    case None
    with WsMessage show ?thesis by (simp add: on_message_def)
  next
    case (Some p)
    with WsMessage quiet show ?thesis by (simp add: sequence_on_message)
  qed
next
  case (TimeoutFires i dl)
  then show ?thesis
    by (cases "snd (timeouts g ! i)") (simp_all add: step_defs split: dial.splits)
qed (simp_all add: step_defs split: option.splits dial.splits)

lemma sequence_run_quiet:
  "\<forall>e \<in> set evs. \<not> carries_sequence e \<Longrightarrow> sequence (run evs g) = sequence g"
proof (induction evs arbitrary: g)
  case Nil
  then show ?case by (simp add: run_def)
next
  case (Cons e evs)
  then have "sequence (run evs (fire e g)) = sequence (fire e g)" by simp
  also have "\<dots> = sequence g" using Cons.prems by (simp add: sequence_fire_quiet)
  finally show ?case by (simp add: run_def)
qed

text \<open>
  Claim C9, as the code has it. A heartbeat tick sends \<open>{op: 1, d: sequence}\<close> on the
  transport, as \<open>JSON.stringify\<close> writes it, when the transport is open, and nothing
  otherwise. The tracked sequence changes only when a frame with a truthy \<open>s\<close> is
  received; it starts as the number 0. So, as long as no such frame has been received
  since the gateway was constructed, \<open>d\<close> is the number 0, not \<open>null\<close>.
\<close>

theorem heartbeat_tick_payload:
  "(ws g = Some n \<and> sockets g n = Some OPEN \<longrightarrow>
      trace (heartbeat_tick g) = trace g @ [Send n (stringify (heartbeat (sequence g)))]) \<and>
   (\<not> isConnected g \<longrightarrow> heartbeat_tick g = g) \<and>
   ((\<forall>e \<in> set evs. \<not> carries_sequence e) \<longrightarrow>
      sequence (run evs g) = sequence g \<and>
      stringify (heartbeat (sequence (run evs (constructor options)))) = heartbeat (JNum 0))"
proof -
  have "sequence (constructor options) = JNum 0" by (simp add: constructor_def)
  then have "stringify (heartbeat (sequence (run evs (constructor options)))) = heartbeat (JNum 0)"
    if "\<forall>e \<in> set evs. \<not> carries_sequence e"
    using that by (simp add: sequence_run_quiet heartbeat_def)
  then show ?thesis
    by (simp add: heartbeat_tick_def heartbeat_def isConnected_def sequence_run_quiet
        split: option.splits)
qed

text \<open>
  Witness for C9: in a session that has seen sequence number 5 the tick sends
  \<open>{op: 1, d: 5}\<close>; a new gateway, not connected, sends nothing; up to Hello no frame
  carries a sequence number, and the payload has \<open>d = 0\<close>.
\<close>

theorem heartbeat_tick_payload_witness:
  "ws in_session = Some 0 \<and> sockets in_session 0 = Some OPEN \<and>
   added in_session (heartbeat_tick in_session) = [Send 0 (heartbeat (JNum 5))] \<and>
   \<not> isConnected fresh \<and> heartbeat_tick fresh = fresh \<and>
   \<not> carries_sequence (CallConnect Dialled) \<and>
   \<not> carries_sequence (WsOpen 0) \<and>
   \<not> carries_sequence (WsMessage 0 (Some (hello_frame 41250))) \<and>
   stringify (heartbeat (sequence (run [CallConnect Dialled, WsOpen 0,
     WsMessage 0 (Some (hello_frame 41250))] (constructor (owner_options ''token''))))) =
     heartbeat (JNum 0)"
proof -
  have s: "ws in_session = Some 0" "sockets in_session 0 = Some OPEN"
    "sequence in_session = JNum 5"
    by (simp_all add: connected_def in_session_def scenario_defs)
  have f: "\<not> isConnected fresh" by (simp add: fresh_def constructor_def isConnected_def)
  have q: "\<forall>e \<in> set [CallConnect Dialled, WsOpen 0, WsMessage 0 (Some (hello_frame 41250))].
      \<not> carries_sequence e"
    by (simp add: hello_frame_def)
  show ?thesis
    using heartbeat_tick_payload [of in_session 0 "[]"]
      heartbeat_tick_payload [of fresh 0
        "[CallConnect Dialled, WsOpen 0, WsMessage 0 (Some (hello_frame 41250))]"
        "owner_options ''token''"] s f q
    by (simp add: added_def heartbeat_def)
qed

text \<open>
  Against C9 as stated: a new gateway has connected and received Hello, and no frame
  has carried a sequence number. The tick sends \<open>d = 0\<close>, a number, not \<open>null\<close>. And not
  every tick sends: while the gateway dials again after opcode 7, the timer of the old
  Hello still runs, and its tick finds the new transport not open and sends nothing.
  And \<open>d\<close> is not always the sequence number received: an \<open>s\<close> beyond the range of a
  double is tracked as infinity and written as \<open>null\<close>.
\<close>

theorem first_heartbeat_sends_zero:
  "sequence awaiting_ready = JNum 0 \<and>
   added awaiting_ready (fire IntervalTick awaiting_ready) =
     [Send 0 (JObj [(''op'', JNum 1), (''d'', JNum 0)])] \<and>
   JNum 0 \<noteq> JNull \<and>
   heartbeatInterval redialling = Some (JNum 41250) \<and>
   added redialling (fire IntervalTick redialling) = [] \<and>
   added (fire (WsMessage 0 (Some (JObj [(''op'', JNum 11), (''s'', JInfinity)]))) connected)
     (run [WsMessage 0 (Some (JObj [(''op'', JNum 11), (''s'', JInfinity)])), IntervalTick] connected) =
     [Send 0 (JObj [(''op'', JNum 1), (''d'', JNull)])]"
  by (simp add: awaiting_ready_def redialling_def connected_def added_def scenario_defs)

end
